theory Spec2Isabelle
  imports Main "HOL-Library.Word"
begin

section \<open>HA cluster state management (src/ha/cluster_state.c)\<close>

text \<open>
  A shallow embedding of the two-node failover state machine of
  \<^verbatim>\<open>cluster_state.c\<close>. The static \<^verbatim>\<open>cluster\<close> struct is a record that
  every operation takes and returns; the calls into the collaborators (virtual
  IPs, MAC tables, heartbeat transport, syslog) are collected, in program order,
  in the list of effects that each operation returns next to the new state.
  The values read from the environment (\<^verbatim>\<open>time(NULL)\<close>, the two uptime
  readings) are arguments. The mutex makes every public operation atomic; the
  model is the sequential behaviour of one operation at a time.
\<close>

subsection \<open>Data model\<close>

type_synonym u8 = "8 word"
type_synonym u32 = "32 word"
type_synonym byte = "8 word"

text \<open>\<^verbatim>\<open>time_t\<close> is a count of seconds; \<^verbatim>\<open>difftime\<close> of two such
  counts is their difference. The source holds the elapsed milliseconds in a
  \<^verbatim>\<open>double\<close>; the model holds the exact integer, which the double equals
  below 2 to the power 53 ms. The comparison with the timeout is the same in both; only the
  number written to the log could differ beyond that bound.\<close>
type_synonym time_t = int

definition CLUSTER_ROLE_INIT :: u8 where [simp]: "CLUSTER_ROLE_INIT = 0"
definition CLUSTER_ROLE_ACTIVE :: u8 where [simp]: "CLUSTER_ROLE_ACTIVE = 1"
definition CLUSTER_ROLE_STANDBY :: u8 where [simp]: "CLUSTER_ROLE_STANDBY = 2"
definition CLUSTER_ROLE_SPLIT :: u8 where [simp]: "CLUSTER_ROLE_SPLIT = 3"

definition HEARTBEAT_TIMEOUT_MS :: int where [simp]: "HEARTBEAT_TIMEOUT_MS = 3000"

definition ELECTION_PRIORITY_SERIAL :: u8 where [simp]: "ELECTION_PRIORITY_SERIAL = 0"
definition ELECTION_PRIORITY_UPTIME :: u8 where [simp]: "ELECTION_PRIORITY_UPTIME = 1"

text \<open>The struct \<^verbatim>\<open>cluster_state_t\<close>, without its mutex. The two serials are
  the 32-byte \<^verbatim>\<open>char\<close> arrays, as lists of bytes.\<close>

record cluster_state =
  local_role :: u8
  peer_role :: u8
  heartbeat_up :: bool
  last_heartbeat_rx :: time_t
  last_heartbeat_tx :: time_t
  cluster_id :: u32
  local_serial :: "byte list"
  peer_serial :: "byte list"
  split_brain_detected :: bool
  auto_recovery_enabled :: bool
  election_policy :: u8

text \<open>\<^verbatim>\<open>heartbeat_msg_t\<close> is declared in heartbeat.h, which is not part of the
  sources; the fields are the ones that cluster_state.c reads and writes.\<close>

record heartbeat_msg =
  hb_cluster_id :: u32
  sender_role :: u8
  sender_serial :: "byte list"
  timestamp :: time_t

text \<open>\<^verbatim>\<open>cluster_status_t\<close> is declared in cluster_state.h, which is not part of
  the sources; the fields are the ones that \<^verbatim>\<open>cluster_get_status\<close> writes.
  The size of its two serial arrays is the length of the lists found in the
  destination.\<close>

record cluster_status =
  st_cluster_id :: u32
  st_local_role :: u8
  st_peer_role :: u8
  st_heartbeat_up :: bool
  st_split_brain :: bool
  st_last_heartbeat :: time_t
  st_local_serial :: "byte list"
  st_peer_serial :: "byte list"

datatype log_level = LOG_INFO | LOG_WARNING | LOG_CRIT

datatype log_msg =
    MsgInitialized u32 "byte list"
  | MsgHeartbeatLost int
  | MsgStandbyPromoting
  | MsgSplitBrainDetected u32
  | MsgAutoResolving string
  | MsgAutoDemoting "byte list" "byte list"
  | MsgRemainsActive "byte list" "byte list"
  | MsgHeartbeatRestored
  | MsgForcingRole string

text \<open>One constructor for each call that leaves the module.\<close>

datatype effect =
    Syslog log_level log_msg
  | ActivateVirtualIps
  | ActivateMacTables
  | ReleaseVirtualIps
  | FlushMacTables
  | HeartbeatSend heartbeat_msg

subsection \<open>C strings\<close>

text \<open>The string held by a \<^verbatim>\<open>char\<close> array: the bytes before the first NUL.
  A list that holds no NUL is read up to its end.\<close>

definition c_str :: "byte list \<Rightarrow> byte list" where
  "c_str buf = takeWhile (\<lambda>b. b \<noteq> 0) buf"

text \<open>\<^verbatim>\<open>strncpy(dst, src, n)\<close>: the first \<open>n\<close> bytes of \<open>dst\<close> are overwritten
  with the string of \<open>src\<close>, cut at \<open>n\<close> bytes and padded with NUL up to \<open>n\<close>;
  the bytes of \<open>dst\<close> from \<open>n\<close> on are untouched. Every call in the source has
  \<open>n = sizeof(dst) - 1\<close>.\<close>

definition strncpy_c :: "byte list \<Rightarrow> byte list \<Rightarrow> nat \<Rightarrow> byte list" where
  "strncpy_c dst src n =
     (let s = take n (c_str src) in s @ replicate (n - length s) 0 @ drop n dst)"

text \<open>\<^verbatim>\<open>strcmp\<close>: walks both strings and returns the difference of the first
  two bytes that differ, read as \<^verbatim>\<open>unsigned char\<close>, or 0 when both end.\<close>

fun strcmp_c :: "byte list \<Rightarrow> byte list \<Rightarrow> int" where
  "strcmp_c (x # xs) (y # ys) =
     (if x = 0 \<or> x \<noteq> y then uint x - uint y else strcmp_c xs ys)"
| "strcmp_c [] (y # ys) = - uint y"
| "strcmp_c (x # xs) [] = uint x"
| "strcmp_c [] [] = 0"

text \<open>Modelled from the spec: heartbeat.h is missing, so the size of
  \<^verbatim>\<open>msg.sender_serial\<close> is taken from section 6 of the specification (the
  31-visible-byte bound of the local serial, hence 32 bytes).\<close>

definition SENDER_SERIAL_SIZE :: nat where
  "SENDER_SERIAL_SIZE = 32"

subsection \<open>Operations\<close>

text \<open>Every operation returns its \<^verbatim>\<open>int\<close> result, the new state and the
  effects of the call.\<close>

definition cluster_state_zero :: cluster_state where
  "cluster_state_zero =
     \<lparr> local_role = 0, peer_role = 0, heartbeat_up = False,
       last_heartbeat_rx = 0, last_heartbeat_tx = 0, cluster_id = 0,
       local_serial = replicate 32 0, peer_serial = replicate 32 0,
       split_brain_detected = False, auto_recovery_enabled = False,
       election_policy = 0 \<rparr>"

definition cluster_state_init :: "u32 \<Rightarrow> byte list \<Rightarrow> int \<times> cluster_state \<times> effect list" where
  "cluster_state_init cid serial =
     (let c = cluster_state_zero;
          c = c\<lparr>cluster_id := cid\<rparr>;
          c = c\<lparr>local_serial := strncpy_c (local_serial c) serial (32 - 1)\<rparr>;
          c = c\<lparr>local_role := CLUSTER_ROLE_INIT\<rparr>;
          c = c\<lparr>peer_role := CLUSTER_ROLE_INIT\<rparr>;
          c = c\<lparr>heartbeat_up := False\<rparr>;
          c = c\<lparr>auto_recovery_enabled := False\<rparr>;
          c = c\<lparr>election_policy := ELECTION_PRIORITY_SERIAL\<rparr>
      in (0, c, [Syslog LOG_INFO (MsgInitialized cid (c_str serial))]))"

text \<open>The resolver. \<open>sys_up\<close> and \<open>peer_up\<close> are what \<^verbatim>\<open>get_system_uptime()\<close>
  and \<^verbatim>\<open>get_peer_uptime()\<close> return when they are called. A policy byte
  other than 0 and 1 leaves \<^verbatim>\<open>should_demote\<close> false.\<close>

definition should_demote :: "nat \<Rightarrow> nat \<Rightarrow> cluster_state \<Rightarrow> bool" where
  "should_demote sys_up peer_up c =
     (if election_policy c = ELECTION_PRIORITY_SERIAL
        then strcmp_c (local_serial c) (peer_serial c) > 0
      else if election_policy c = ELECTION_PRIORITY_UPTIME
        then sys_up < peer_up
      else False)"

definition cluster_auto_resolve_split_brain ::
    "nat \<Rightarrow> nat \<Rightarrow> cluster_state \<Rightarrow> int \<times> cluster_state \<times> effect list" where
  "cluster_auto_resolve_split_brain sys_up peer_up c =
     (let e0 = [Syslog LOG_INFO (MsgAutoResolving
                  (if election_policy c = ELECTION_PRIORITY_SERIAL
                   then ''serial-number'' else ''uptime''))]
      in if should_demote sys_up peer_up c
         then (0, c\<lparr>local_role := CLUSTER_ROLE_STANDBY, split_brain_detected := False\<rparr>,
               e0 @ [Syslog LOG_WARNING
                       (MsgAutoDemoting (c_str (local_serial c)) (c_str (peer_serial c))),
                     ReleaseVirtualIps, FlushMacTables])
         else (0, c,
               e0 @ [Syslog LOG_INFO
                       (MsgRemainsActive (c_str (local_serial c)) (c_str (peer_serial c)))]))"

text \<open>\<^verbatim>\<open>cluster_heartbeat_tick\<close> in its three parts: the liveness check
  (lines 87-108), the split-brain check (lines 110-124) and the outbound
  heartbeat (lines 126-134).\<close>

definition tick_liveness :: "time_t \<Rightarrow> cluster_state \<Rightarrow> cluster_state \<times> effect list" where
  "tick_liveness now c =
     (let ms_since_rx = (now - last_heartbeat_rx c) * 1000
      in if heartbeat_up c \<and> ms_since_rx > HEARTBEAT_TIMEOUT_MS
         then (let c1 = c\<lparr>heartbeat_up := False\<rparr>;
                   e1 = [Syslog LOG_WARNING (MsgHeartbeatLost ms_since_rx)]
               in if local_role c1 = CLUSTER_ROLE_STANDBY
                  then (c1\<lparr>local_role := CLUSTER_ROLE_ACTIVE\<rparr>,
                        e1 @ [Syslog LOG_WARNING MsgStandbyPromoting,
                              ActivateVirtualIps, ActivateMacTables])
                  else (c1, e1))
         else (c, []))"

definition tick_split_brain ::
    "nat \<Rightarrow> nat \<Rightarrow> cluster_state \<Rightarrow> cluster_state \<times> effect list" where
  "tick_split_brain sys_up peer_up c =
     (if local_role c = CLUSTER_ROLE_ACTIVE \<and> peer_role c = CLUSTER_ROLE_ACTIVE
      then (if \<not> split_brain_detected c
            then (let c1 = c\<lparr>split_brain_detected := True\<rparr>;
                      e1 = [Syslog LOG_CRIT (MsgSplitBrainDetected (cluster_id c))]
                  in if auto_recovery_enabled c1
                     then (case cluster_auto_resolve_split_brain sys_up peer_up c1 of
                             (r, c2, e2) \<Rightarrow> (c2, e1 @ e2))
                     else (c1, e1))
            else (c, []))
      else (c, []))"

definition tick_send :: "time_t \<Rightarrow> cluster_state \<Rightarrow> cluster_state \<times> effect list" where
  "tick_send now c =
     (let msg = \<lparr> hb_cluster_id = cluster_id c, sender_role = local_role c,
                  sender_serial = replicate SENDER_SERIAL_SIZE 0, timestamp = now \<rparr>;
          msg = msg\<lparr>sender_serial :=
                  strncpy_c (sender_serial msg) (local_serial c) (SENDER_SERIAL_SIZE - 1)\<rparr>
      in (c\<lparr>last_heartbeat_tx := now\<rparr>, [HeartbeatSend msg]))"

definition cluster_heartbeat_tick ::
    "time_t \<Rightarrow> nat \<Rightarrow> nat \<Rightarrow> cluster_state \<Rightarrow> int \<times> cluster_state \<times> effect list" where
  "cluster_heartbeat_tick now sys_up peer_up c =
     (case tick_liveness now c of (c1, e1) \<Rightarrow>
      case tick_split_brain sys_up peer_up c1 of (c2, e2) \<Rightarrow>
      case tick_send now c2 of (c3, e3) \<Rightarrow> (0, c3, e1 @ e2 @ e3))"

definition cluster_heartbeat_received ::
    "time_t \<Rightarrow> heartbeat_msg \<Rightarrow> cluster_state \<Rightarrow> int \<times> cluster_state \<times> effect list" where
  "cluster_heartbeat_received now msg c =
     (let c = c\<lparr>last_heartbeat_rx := now\<rparr>;
          c = c\<lparr>heartbeat_up := True\<rparr>;
          c = c\<lparr>peer_role := sender_role msg\<rparr>;
          c = c\<lparr>peer_serial := strncpy_c (peer_serial c) (sender_serial msg) (32 - 1)\<rparr>
      in (0, c,
          if split_brain_detected c \<and> heartbeat_up c
          then [Syslog LOG_INFO MsgHeartbeatRestored] else []))"

definition cluster_force_role :: "u8 \<Rightarrow> cluster_state \<Rightarrow> int \<times> cluster_state \<times> effect list" where
  "cluster_force_role role c =
     (let e0 = [Syslog LOG_WARNING (MsgForcingRole
                  (if role = CLUSTER_ROLE_ACTIVE then ''ACTIVE'' else ''STANDBY''))];
          e1 = (if role = CLUSTER_ROLE_STANDBY then [ReleaseVirtualIps, FlushMacTables]
                else if role = CLUSTER_ROLE_ACTIVE then [ActivateVirtualIps, ActivateMacTables]
                else [])
      in (0, c\<lparr>local_role := role, split_brain_detected := False\<rparr>, e0 @ e1))"

text \<open>The destination of \<^verbatim>\<open>cluster_get_status\<close> is \<open>None\<close> for a null pointer
  and otherwise the struct it points to, as the caller left it. The third
  component is the destination after the call.\<close>

definition cluster_get_status ::
    "cluster_status option \<Rightarrow> cluster_state \<Rightarrow> int \<times> cluster_state \<times> cluster_status option" where
  "cluster_get_status status c =
     (case status of
        None \<Rightarrow> (-1, c, None)
      | Some d \<Rightarrow>
          (0, c,
           Some (d\<lparr> st_cluster_id := cluster_id c,
                    st_local_role := local_role c,
                    st_peer_role := peer_role c,
                    st_heartbeat_up := heartbeat_up c,
                    st_split_brain := split_brain_detected c,
                    st_last_heartbeat := last_heartbeat_rx c,
                    st_local_serial :=
                      strncpy_c (st_local_serial d) (local_serial c) (length (st_local_serial d) - 1),
                    st_peer_serial :=
                      strncpy_c (st_peer_serial d) (peer_serial c) (length (st_peer_serial d) - 1) \<rparr>)))"

subsection \<open>Sequences of public operations\<close>

definition ret_of :: "int \<times> cluster_state \<times> 'a \<Rightarrow> int" where
  "ret_of r = fst r"

definition state_of :: "int \<times> cluster_state \<times> 'a \<Rightarrow> cluster_state" where
  "state_of r = fst (snd r)"

definition effects_of :: "int \<times> cluster_state \<times> 'a \<Rightarrow> 'a" where
  "effects_of r = snd (snd r)"

datatype op =
    Tick time_t nat nat
  | Receive time_t heartbeat_msg
  | ForceRole u8
  | GetStatus "cluster_status option"

fun step :: "op \<Rightarrow> cluster_state \<Rightarrow> cluster_state" where
  "step (Tick now sys_up peer_up) c = state_of (cluster_heartbeat_tick now sys_up peer_up c)"
| "step (Receive now msg) c = state_of (cluster_heartbeat_received now msg c)"
| "step (ForceRole role) c = state_of (cluster_force_role role c)"
| "step (GetStatus status) c = state_of (cluster_get_status status c)"

fun run :: "op list \<Rightarrow> cluster_state \<Rightarrow> cluster_state" where
  "run [] c = c"
| "run (x # xs) c = run xs (step x c)"

text \<open>
  The effects of an operation and of a sequence of operations, in program order.
  \<^verbatim>\<open>cluster_get_status\<close> calls no collaborator.
\<close>

fun step_effects :: "op \<Rightarrow> cluster_state \<Rightarrow> effect list" where
  "step_effects (Tick now sys_up peer_up) c = effects_of (cluster_heartbeat_tick now sys_up peer_up c)"
| "step_effects (Receive now msg) c = effects_of (cluster_heartbeat_received now msg c)"
| "step_effects (ForceRole role) c = effects_of (cluster_force_role role c)"
| "step_effects (GetStatus status) c = []"

fun trace :: "op list \<Rightarrow> cluster_state \<Rightarrow> effect list" where
  "trace [] c = []"
| "trace (x # xs) c = step_effects x c @ trace xs (step x c)"

fun is_tick :: "op \<Rightarrow> bool" where
  "is_tick (Tick now sys_up peer_up) = True"
| "is_tick (Receive now msg) = False"
| "is_tick (ForceRole role) = False"
| "is_tick (GetStatus status) = False"

subsection \<open>Notions of the specification\<close>

text \<open>
  The order of section 4.4, "as ordered byte sequences": lexicographic on the
  bytes of the two strings, each byte compared as an unsigned value.
\<close>

fun bytes_less :: "byte list \<Rightarrow> byte list \<Rightarrow> bool" where
  "bytes_less [] [] = False"
| "bytes_less [] (y # ys) = True"
| "bytes_less (x # xs) [] = False"
| "bytes_less (x # xs) (y # ys) = (x < y \<or> (x = y \<and> bytes_less xs ys))"

text \<open>
  A serial array as \<^verbatim>\<open>cluster_state_init\<close> and \<^verbatim>\<open>strncpy\<close> with bound 31 leave
  it: 32 bytes, of which the last is NUL.
\<close>

definition serial_buf_ok :: "byte list \<Rightarrow> bool" where
  "serial_buf_ok buf \<longleftrightarrow> length buf = 32 \<and> buf ! 31 = 0"

definition serials_ok :: "cluster_state \<Rightarrow> bool" where
  "serials_ok c \<longleftrightarrow> serial_buf_ok (local_serial c) \<and> serial_buf_ok (peer_serial c)"

text \<open>
  Modelled from the spec: the code that switches \<open>auto_recovery_enabled\<close> on and
  selects \<open>election_policy\<close> is not in cluster_state.c, where only
  \<^verbatim>\<open>cluster_state_init\<close> writes the two fields (false and serial-number).
  Section 3 of the specification describes them as configuration; the
  invariants below are stated for a freshly initialised state under every
  configuration, which includes the one that the source itself sets.
\<close>

definition configured :: "bool \<Rightarrow> u8 \<Rightarrow> cluster_state \<Rightarrow> cluster_state" where
  "configured a p c = c\<lparr>auto_recovery_enabled := a, election_policy := p\<rparr>"

text \<open>
  The role domain of section 8, and the operations whose role argument lies in
  it: a heartbeat whose sender role is Init, Active or Standby, and a forced
  role that is Active or Standby.
\<close>

definition role_domain :: "cluster_state \<Rightarrow> bool" where
  "role_domain c \<longleftrightarrow>
     local_role c \<in> {CLUSTER_ROLE_INIT, CLUSTER_ROLE_ACTIVE, CLUSTER_ROLE_STANDBY} \<and>
     peer_role c \<in> {CLUSTER_ROLE_INIT, CLUSTER_ROLE_ACTIVE, CLUSTER_ROLE_STANDBY}"

fun op_in_domain :: "op \<Rightarrow> bool" where
  "op_in_domain (Tick now sys_up peer_up) = True"
| "op_in_domain (Receive now msg) =
     (sender_role msg \<in> {CLUSTER_ROLE_INIT, CLUSTER_ROLE_ACTIVE, CLUSTER_ROLE_STANDBY})"
| "op_in_domain (ForceRole role) = (role \<in> {CLUSTER_ROLE_ACTIVE, CLUSTER_ROLE_STANDBY})"
| "op_in_domain (GetStatus status) = True"

text \<open>
  The history behind the split-brain flag. A tick observes the dual-active
  condition when both roles are Active at its split-brain check, that is after
  its liveness step. An operation resolves the condition when it is an operator
  override, or a tick in which the resolver demotes the node from Active to
  Standby. \<open>pending ops c g\<close> tells whether, after \<open>ops\<close> run from \<open>c\<close>, some
  tick has observed the condition with no resolution since; \<open>g\<close> is the answer
  for the history before \<open>c\<close>. None of these reads \<open>split_brain_detected\<close>.
\<close>

fun observes_dual_active :: "op \<Rightarrow> cluster_state \<Rightarrow> bool" where
  "observes_dual_active (Tick now sys_up peer_up) c =
     (let c1 = fst (tick_liveness now c)
      in local_role c1 = CLUSTER_ROLE_ACTIVE \<and> peer_role c1 = CLUSTER_ROLE_ACTIVE)"
| "observes_dual_active (Receive now msg) c = False"
| "observes_dual_active (ForceRole role) c = False"
| "observes_dual_active (GetStatus status) c = False"

fun resolves :: "op \<Rightarrow> cluster_state \<Rightarrow> bool" where
  "resolves (Tick now sys_up peer_up) c =
     (local_role (fst (tick_liveness now c)) = CLUSTER_ROLE_ACTIVE \<and>
      local_role (step (Tick now sys_up peer_up) c) = CLUSTER_ROLE_STANDBY)"
| "resolves (Receive now msg) c = False"
| "resolves (ForceRole role) c = True"
| "resolves (GetStatus status) c = False"

definition pending_step :: "op \<Rightarrow> cluster_state \<Rightarrow> bool \<Rightarrow> bool" where
  "pending_step x c g =
     (if resolves x c then False else if observes_dual_active x c then True else g)"

fun pending :: "op list \<Rightarrow> cluster_state \<Rightarrow> bool \<Rightarrow> bool" where
  "pending [] c g = g"
| "pending (x # xs) c g = pending xs (step x c) (pending_step x c g)"

text \<open>
  Concrete nodes for the closed instances below: the serials "SN1000" and
  "SN2000" of section 8, a heartbeat of cluster 7, and the states that a node
  initialised with cluster id 7 reaches through a list of operations.
\<close>

definition serial_SN1000 :: "byte list" where
  "serial_SN1000 = [83, 78, 49, 48, 48, 48]"

definition serial_SN2000 :: "byte list" where
  "serial_SN2000 = [83, 78, 50, 48, 48, 48]"

definition hb_from :: "u8 \<Rightarrow> byte list \<Rightarrow> heartbeat_msg" where
  "hb_from role serial =
     \<lparr> hb_cluster_id = 7, sender_role = role, sender_serial = serial @ [0], timestamp = 0 \<rparr>"

definition node_after :: "bool \<Rightarrow> byte list \<Rightarrow> op list \<Rightarrow> cluster_state" where
  "node_after auto serial ops =
     run ops (configured auto ELECTION_PRIORITY_SERIAL (state_of (cluster_state_init 7 serial)))"

definition standby_node :: "bool \<Rightarrow> byte list \<Rightarrow> byte list \<Rightarrow> cluster_state" where
  "standby_node auto serial peer =
     node_after auto serial
       [ForceRole CLUSTER_ROLE_STANDBY, Receive 0 (hb_from CLUSTER_ROLE_ACTIVE peer)]"

definition dual_active_node :: "byte list \<Rightarrow> byte list \<Rightarrow> cluster_state" where
  "dual_active_node serial peer =
     (node_after True serial
        [ForceRole CLUSTER_ROLE_ACTIVE, Receive 0 (hb_from CLUSTER_ROLE_ACTIVE peer)])
     \<lparr>split_brain_detected := True\<rparr>"



section \<open>Auxiliary facts\<close>

subsection \<open>Strings\<close>

lemma c_str_Nil [simp]: "c_str [] = []"
  by (simp add: c_str_def)

lemma c_str_Cons: "c_str (x # xs) = (if x = 0 then [] else x # c_str xs)"
  by (simp add: c_str_def)

lemma byte_pos: "0 < uint (x::byte) \<longleftrightarrow> x \<noteq> 0"
  using uint_0_iff [of x] uint_ge_0 [of x] by linarith

lemma strcmp_c_pos: "0 < strcmp_c a b \<longleftrightarrow> bytes_less (c_str b) (c_str a)"
proof (induction a b rule: strcmp_c.induct)
  case (1 x xs y ys)
  show ?case
  proof (cases "x = 0 \<or> x \<noteq> y")
    case True
    then show ?thesis
      by (auto simp add: c_str_Cons word_less_def byte_pos)
  next
    case False
    with 1 show ?thesis by (simp add: c_str_Cons)
  qed
next
  case (2 y ys)
  then show ?case by (simp add: c_str_Cons)
next
  case (3 x xs)
  then show ?case by (simp add: c_str_Cons byte_pos)
next
  case 4
  then show ?case by simp
qed

lemma strcmp_c_neg: "strcmp_c a b < 0 \<longleftrightarrow> bytes_less (c_str a) (c_str b)"
proof (induction a b rule: strcmp_c.induct)
  case (1 x xs y ys)
  show ?case
  proof (cases "x = 0 \<or> x \<noteq> y")
    case True
    then show ?thesis
      by (auto simp add: c_str_Cons word_less_def byte_pos)
  next
    case False
    with 1 show ?thesis by (simp add: c_str_Cons)
  qed
next
  case (2 y ys)
  then show ?case by (simp add: c_str_Cons byte_pos)
next
  case (3 x xs)
  then show ?case by (simp add: c_str_Cons)
next
  case 4
  then show ?case by simp
qed

lemma strcmp_c_zero: "strcmp_c a b = 0 \<longleftrightarrow> c_str a = c_str b"
proof (induction a b rule: strcmp_c.induct)
  case (1 x xs y ys)
  show ?case
  proof (cases "x = 0 \<or> x \<noteq> y")
    case True
    then show ?thesis
      by (auto simp add: c_str_Cons word_uint_eq_iff [symmetric] uint_0_iff)
  next
    case False
    with 1 show ?thesis by (simp add: c_str_Cons)
  qed
next
  case (2 y ys)
  then show ?case by (simp add: c_str_Cons uint_0_iff)
next
  case (3 x xs)
  then show ?case by (simp add: c_str_Cons uint_0_iff)
next
  case 4
  then show ?case by simp
qed

lemma c_str_nonzero: "x \<in> set (c_str buf) \<Longrightarrow> x \<noteq> 0"
  by (auto simp: c_str_def dest: set_takeWhileD)

lemma c_str_take_nonzero: "x \<in> set (take n (c_str buf)) \<Longrightarrow> x \<noteq> 0"
  by (auto dest: in_set_takeD c_str_nonzero)


lemma c_str_append_zeros_Cons:
  assumes "\<forall>x\<in>set s. x \<noteq> 0"
  shows "c_str (s @ replicate k 0 @ 0 # ys) = s"
proof -
  have "takeWhile (\<lambda>b. b \<noteq> (0::byte)) (replicate k 0 @ 0 # ys) = []"
    by (cases k) simp_all
  with assms show ?thesis
    by (simp add: c_str_def takeWhile_append2)
qed



lemma drop_31_ok:
  assumes "serial_buf_ok dst"
  shows "drop 31 dst = [0]"
proof -
  from assms have len: "length dst = 32" and z: "dst ! 31 = 0"
    by (simp_all add: serial_buf_ok_def)
  from len have "dst ! 31 # drop (Suc 31) dst = drop 31 dst"
    by (intro Cons_nth_drop_Suc) simp
  with len z show ?thesis by simp
qed

lemma strncpy_c_31:
  assumes "serial_buf_ok dst"
  obtains p where "strncpy_c dst src 31 = p @ [0]" and "length p = 31"
    and "p = take 31 (c_str src) @ replicate (31 - length (take 31 (c_str src))) 0"
proof -
  define p where "p = take 31 (c_str src) @ replicate (31 - length (take 31 (c_str src))) 0"
  have "strncpy_c dst src 31 = p @ [0]"
    by (simp add: p_def strncpy_c_def Let_def drop_31_ok [OF assms])
  moreover have "length p = 31"
    by (simp add: p_def)
  ultimately show thesis
    using that p_def by blast
qed

lemma strncpy_c_ok:
  assumes "serial_buf_ok dst"
  shows "serial_buf_ok (strncpy_c dst src 31)"
proof -
  obtain p where eq: "strncpy_c dst src 31 = p @ [0]" and len: "length p = 31"
    using strncpy_c_31 [OF assms] by blast
  have "(p @ [0::byte]) ! length p = 0"
    by (rule nth_append_length)
  with len show ?thesis
    by (simp add: serial_buf_ok_def eq)
qed

lemma c_str_strncpy_c_ok:
  assumes "serial_buf_ok dst"
  shows "c_str (strncpy_c dst src 31) = take 31 (c_str src)"
proof -
  obtain p where eq: "strncpy_c dst src 31 = p @ [0]"
    and p: "p = take 31 (c_str src) @ replicate (31 - length (take 31 (c_str src))) 0"
    using strncpy_c_31 [OF assms] by blast
  have "c_str (take 31 (c_str src) @ replicate (31 - length (take 31 (c_str src))) 0 @ 0 # [])
          = take 31 (c_str src)"
    by (rule c_str_append_zeros_Cons) (auto dest: c_str_take_nonzero)
  then show ?thesis
    by (simp add: eq p)
qed

lemma zeros_ok: "serial_buf_ok (replicate 32 0)"
  by (simp add: serial_buf_ok_def)





subsection \<open>The operations, field by field\<close>

lemma ret_of_simp [simp]: "ret_of (r, c, e) = r"
  by (simp add: ret_of_def)

lemma state_of_simp [simp]: "state_of (r, c, e) = c"
  by (simp add: state_of_def)

lemma effects_of_simp [simp]: "effects_of (r, c, e) = e"
  by (simp add: effects_of_def)

lemma tick_liveness_state:
  "fst (tick_liveness now c) =
     (if heartbeat_up c \<and> (now - last_heartbeat_rx c) * 1000 > 3000
      then (if local_role c = CLUSTER_ROLE_STANDBY
            then c\<lparr>heartbeat_up := False, local_role := CLUSTER_ROLE_ACTIVE\<rparr>
            else c\<lparr>heartbeat_up := False\<rparr>)
      else c)"
  by (simp add: tick_liveness_def Let_def)

lemma tick_liveness_effects:
  "snd (tick_liveness now c) =
     (if heartbeat_up c \<and> (now - last_heartbeat_rx c) * 1000 > 3000
      then Syslog LOG_WARNING (MsgHeartbeatLost ((now - last_heartbeat_rx c) * 1000)) #
           (if local_role c = CLUSTER_ROLE_STANDBY
            then [Syslog LOG_WARNING MsgStandbyPromoting, ActivateVirtualIps, ActivateMacTables]
            else [])
      else [])"
  by (simp add: tick_liveness_def Let_def)

lemma tick_split_brain_state:
  "fst (tick_split_brain su pu c) =
     (if local_role c = CLUSTER_ROLE_ACTIVE \<and> peer_role c = CLUSTER_ROLE_ACTIVE
         \<and> \<not> split_brain_detected c
      then (if auto_recovery_enabled c \<and> should_demote su pu c
            then c\<lparr>local_role := CLUSTER_ROLE_STANDBY, split_brain_detected := False\<rparr>
            else c\<lparr>split_brain_detected := True\<rparr>)
      else c)"
  by (simp add: tick_split_brain_def cluster_auto_resolve_split_brain_def Let_def
      should_demote_def)

lemma tick_state:
  "state_of (cluster_heartbeat_tick now su pu c) =
     (fst (tick_split_brain su pu (fst (tick_liveness now c))))\<lparr>last_heartbeat_tx := now\<rparr>"
  by (simp add: cluster_heartbeat_tick_def tick_send_def Let_def split: prod.splits)

lemma tick_effects:
  "effects_of (cluster_heartbeat_tick now su pu c) =
     snd (tick_liveness now c) @ snd (tick_split_brain su pu (fst (tick_liveness now c))) @
     snd (tick_send now (fst (tick_split_brain su pu (fst (tick_liveness now c)))))"
  by (simp add: cluster_heartbeat_tick_def split: prod.splits)

lemma auto_resolve_no_activation:
  "ActivateVirtualIps \<notin> set (effects_of (cluster_auto_resolve_split_brain su pu c)) \<and>
   ActivateMacTables \<notin> set (effects_of (cluster_auto_resolve_split_brain su pu c))"
  by (simp add: cluster_auto_resolve_split_brain_def Let_def)

lemma tick_split_brain_no_activation:
  "ActivateVirtualIps \<notin> set (snd (tick_split_brain su pu c)) \<and>
   ActivateMacTables \<notin> set (snd (tick_split_brain su pu c))"
  using auto_resolve_no_activation [of su pu "c\<lparr>split_brain_detected := True\<rparr>"]
  by (auto simp add: tick_split_brain_def Let_def effects_of_def split: prod.splits)

lemma tick_send_effects:
  "ActivateVirtualIps \<notin> set (snd (tick_send now c)) \<and>
   ActivateMacTables \<notin> set (snd (tick_send now c))"
  by (simp add: tick_send_def Let_def)

lemma count_list_0: "x \<notin> set xs \<Longrightarrow> count_list xs x = 0"
  by (simp add: count_list_0_iff)

subsection \<open>Invariants of the reachable states\<close>

lemma step_role_domain:
  "role_domain c \<Longrightarrow> op_in_domain x \<Longrightarrow> role_domain (step x c)"
proof (cases x)
  case (Tick now su pu)
  assume "role_domain c"
  then show ?thesis
    unfolding Tick step.simps tick_state tick_split_brain_state tick_liveness_state
    by (auto simp add: role_domain_def)
next
  case (Receive now msg)
  assume "role_domain c" "op_in_domain x"
  then show ?thesis
    by (simp add: Receive role_domain_def cluster_heartbeat_received_def Let_def)
next
  case (ForceRole role)
  assume "role_domain c" "op_in_domain x"
  then show ?thesis
    by (simp add: ForceRole role_domain_def cluster_force_role_def Let_def)
next
  case (GetStatus status)
  assume "role_domain c"
  then show ?thesis
    by (simp add: GetStatus cluster_get_status_def split: option.splits)
qed

lemma run_role_domain:
  "role_domain c \<Longrightarrow> \<forall>x\<in>set ops. op_in_domain x \<Longrightarrow> role_domain (run ops c)"
  by (induction ops arbitrary: c) (simp_all add: step_role_domain)

lemma init_role_domain: "role_domain (configured a p (state_of (cluster_state_init cid serial)))"
  by (simp add: role_domain_def configured_def cluster_state_init_def Let_def)

lemma step_flag:
  "split_brain_detected (step x c) = pending_step x c (split_brain_detected c)"
proof (cases x)
  case (Tick now su pu)
  show ?thesis
    unfolding Tick pending_step_def resolves.simps observes_dual_active.simps
      step.simps tick_state tick_split_brain_state tick_liveness_state Let_def
    by simp
next
  case (Receive now msg)
  then show ?thesis
    by (simp add: pending_step_def cluster_heartbeat_received_def Let_def)
next
  case (ForceRole role)
  then show ?thesis
    by (simp add: pending_step_def cluster_force_role_def Let_def)
next
  case (GetStatus status)
  then show ?thesis
    by (simp add: pending_step_def cluster_get_status_def split: option.splits)
qed

lemma run_flag:
  "split_brain_detected (run ops c) = pending ops c (split_brain_detected c)"
  by (induction ops arbitrary: c) (simp_all add: step_flag)

lemma step_sets_flag:
  "\<not> split_brain_detected c \<Longrightarrow> split_brain_detected (step x c) \<Longrightarrow> observes_dual_active x c"
  unfolding step_flag pending_step_def by (simp split: if_splits)

lemma tick_split_brain_flag_set:
  "split_brain_detected c \<Longrightarrow>
   tick_split_brain su pu (fst (tick_liveness now c)) = (fst (tick_liveness now c), [])"
  by (simp add: tick_split_brain_def tick_liveness_state)

lemma init_serials_ok: "serials_ok (configured a p (state_of (cluster_state_init cid serial)))"
  using strncpy_c_ok [OF zeros_ok, of serial] zeros_ok
  by (simp add: serials_ok_def configured_def cluster_state_init_def cluster_state_zero_def Let_def)

lemma step_serials_ok: "serials_ok c \<Longrightarrow> serials_ok (step x c)"
proof (cases x)
  case (Tick now su pu)
  assume "serials_ok c"
  then show ?thesis
    unfolding Tick step.simps tick_state tick_split_brain_state tick_liveness_state
    by (simp add: serials_ok_def)
next
  case (Receive now msg)
  assume "serials_ok c"
  then show ?thesis
    using strncpy_c_ok [of "peer_serial c" "sender_serial msg"]
    by (simp add: Receive serials_ok_def cluster_heartbeat_received_def Let_def)
next
  case (ForceRole role)
  assume "serials_ok c"
  then show ?thesis
    by (simp add: ForceRole serials_ok_def cluster_force_role_def Let_def)
next
  case (GetStatus status)
  assume "serials_ok c"
  then show ?thesis
    by (simp add: GetStatus cluster_get_status_def split: option.splits)
qed

lemma run_serials_ok: "serials_ok c \<Longrightarrow> serials_ok (run ops c)"
  by (induction ops arbitrary: c) (simp_all add: step_serials_ok)

lemma reachable_serials_ok:
  "serials_ok (run ops (configured a p (state_of (cluster_state_init cid serial))))"
  by (rule run_serials_ok [OF init_serials_ok])

lemma tick_keeps_standby_down:
  assumes "\<not> heartbeat_up c" and "local_role c = CLUSTER_ROLE_STANDBY"
  shows "\<not> heartbeat_up (state_of (cluster_heartbeat_tick now su pu c)) \<and>
         local_role (state_of (cluster_heartbeat_tick now su pu c)) = CLUSTER_ROLE_STANDBY"
  unfolding tick_state tick_split_brain_state tick_liveness_state
  using assms by simp

lemma tick_down_no_activation:
  assumes "\<not> heartbeat_up c"
  shows "ActivateVirtualIps \<notin> set (effects_of (cluster_heartbeat_tick now su pu c)) \<and>
         ActivateMacTables \<notin> set (effects_of (cluster_heartbeat_tick now su pu c))"
proof -
  have "snd (tick_liveness now c) = []"
    using assms by (simp add: tick_liveness_effects)
  then show ?thesis
    unfolding tick_effects
    using tick_split_brain_no_activation tick_send_effects by simp
qed

lemma ticks_keep_standby_down:
  "\<not> heartbeat_up c \<Longrightarrow> local_role c = CLUSTER_ROLE_STANDBY \<Longrightarrow> \<forall>x\<in>set ops. is_tick x \<Longrightarrow>
   local_role (run ops c) = CLUSTER_ROLE_STANDBY \<and> \<not> heartbeat_up (run ops c) \<and>
   ActivateVirtualIps \<notin> set (trace ops c) \<and> ActivateMacTables \<notin> set (trace ops c)"
proof (induction ops arbitrary: c)
  case Nil
  then show ?case by simp
next
  case (Cons x xs)
  from Cons.prems obtain now su pu where x: "x = Tick now su pu"
    by (cases x) simp_all
  from Cons.prems have k: "\<not> heartbeat_up (step x c)" "local_role (step x c) = CLUSTER_ROLE_STANDBY"
    using tick_keeps_standby_down [of c now su pu] by (simp_all add: x)
  from Cons.prems have n: "ActivateVirtualIps \<notin> set (step_effects x c)"
      "ActivateMacTables \<notin> set (step_effects x c)"
    using tick_down_no_activation [of c now su pu] by (simp_all add: x)
  from Cons.prems have "\<forall>y\<in>set xs. is_tick y" by simp
  from Cons.IH [OF k this] n show ?case by simp
qed

section \<open>The claims\<close>

subsection \<open>Role domain\<close>

text \<open>
  C1, as amended. After \<^verbatim>\<open>cluster_state_init\<close>, under every configuration, and
  after every sequence of public operations in which each received heartbeat
  carries a sender role among Init, Active and Standby and each forced role is
  Active or Standby, both \<open>local_role\<close> and \<open>peer_role\<close> are among Init, Active
  and Standby: the module itself never writes the Split value.
\<close>

theorem role_domain_invariant:
  "\<forall>x\<in>set ops. op_in_domain x \<Longrightarrow>
   role_domain (run ops (configured a p (state_of (cluster_state_init cid serial))))"
  by (rule run_role_domain [OF init_role_domain])

text \<open>
  An instance: forcing Standby, receiving an Active heartbeat and ticking.
\<close>

theorem role_domain_invariant_witness:
  "op_in_domain (ForceRole CLUSTER_ROLE_STANDBY) \<and>
   op_in_domain (Receive 0 (hb_from CLUSTER_ROLE_ACTIVE serial_SN1000)) \<and>
   op_in_domain (Tick 10 0 0) \<and>
   role_domain (run [ForceRole CLUSTER_ROLE_STANDBY, Receive 0 (hb_from CLUSTER_ROLE_ACTIVE serial_SN1000),
                     Tick 10 0 0]
     (configured True ELECTION_PRIORITY_SERIAL (state_of (cluster_state_init 7 serial_SN2000))))"
proof -
  have a: "op_in_domain (ForceRole CLUSTER_ROLE_STANDBY)"
    by simp
  have b: "op_in_domain (Receive 0 (hb_from CLUSTER_ROLE_ACTIVE serial_SN1000))"
    by (simp add: hb_from_def)
  have c: "op_in_domain (Tick 10 0 0)"
    by simp
  from a b c have h: "\<forall>x\<in>set [ForceRole CLUSTER_ROLE_STANDBY,
                     Receive 0 (hb_from CLUSTER_ROLE_ACTIVE serial_SN1000),
                     Tick 10 0 0]. op_in_domain x"
    by simp
  from a b c role_domain_invariant [OF h] show ?thesis
    by blast
qed

text \<open>
  C1 as stated fails. Neither \<^verbatim>\<open>cluster_heartbeat_received\<close> nor
  \<^verbatim>\<open>cluster_force_role\<close> checks the role it is given: a heartbeat whose
  sender role is Split stores Split in \<open>peer_role\<close>, and forcing the role Split
  stores it in \<open>local_role\<close>.
\<close>

theorem role_domain_counterexample:
  "\<not> role_domain (run [Receive 0 (hb_from CLUSTER_ROLE_SPLIT serial_SN1000)]
                       (state_of (cluster_state_init 7 serial_SN2000))) \<and>
   peer_role (run [Receive 0 (hb_from CLUSTER_ROLE_SPLIT serial_SN1000)]
                (state_of (cluster_state_init 7 serial_SN2000))) = CLUSTER_ROLE_SPLIT \<and>
   \<not> role_domain (run [ForceRole CLUSTER_ROLE_SPLIT]
                       (state_of (cluster_state_init 7 serial_SN2000))) \<and>
   local_role (run [ForceRole CLUSTER_ROLE_SPLIT]
                 (state_of (cluster_state_init 7 serial_SN2000))) = CLUSTER_ROLE_SPLIT"
  by code_simp

subsection \<open>Serial-number tie-break\<close>

text \<open>
  C2. In a state with both roles Active and the serial-number policy, the
  resolver decides by the byte order of the two serial strings. If the local
  serial sorts strictly greater than the peer's, it stores Standby in
  \<open>local_role\<close>, calls the release path (release the virtual IPs, flush the MAC
  tables) and clears \<open>split_brain_detected\<close>. If the local serial sorts strictly
  less, or if the two serials are equal, it returns the state as it found it:
  \<open>local_role\<close> stays Active and the flag keeps its value, so a flag that is set
  stays set; the only effect is the log.
\<close>

theorem serial_tie_break:
  assumes "local_role c = CLUSTER_ROLE_ACTIVE" and "peer_role c = CLUSTER_ROLE_ACTIVE"
    and "election_policy c = ELECTION_PRIORITY_SERIAL"
  shows "(bytes_less (c_str (peer_serial c)) (c_str (local_serial c)) \<longrightarrow>
            cluster_auto_resolve_split_brain su pu c =
              (0, c\<lparr>local_role := CLUSTER_ROLE_STANDBY, split_brain_detected := False\<rparr>,
               [Syslog LOG_INFO (MsgAutoResolving ''serial-number''),
                Syslog LOG_WARNING
                  (MsgAutoDemoting (c_str (local_serial c)) (c_str (peer_serial c))),
                ReleaseVirtualIps, FlushMacTables])) \<and>
         (bytes_less (c_str (local_serial c)) (c_str (peer_serial c)) \<longrightarrow>
            cluster_auto_resolve_split_brain su pu c =
              (0, c,
               [Syslog LOG_INFO (MsgAutoResolving ''serial-number''),
                Syslog LOG_INFO
                  (MsgRemainsActive (c_str (local_serial c)) (c_str (peer_serial c)))])) \<and>
         (c_str (local_serial c) = c_str (peer_serial c) \<longrightarrow>
            cluster_auto_resolve_split_brain su pu c =
              (0, c,
               [Syslog LOG_INFO (MsgAutoResolving ''serial-number''),
                Syslog LOG_INFO
                  (MsgRemainsActive (c_str (local_serial c)) (c_str (peer_serial c)))]))"
proof -
  have pos: "should_demote su pu c = bytes_less (c_str (peer_serial c)) (c_str (local_serial c))"
    using assms(3) by (simp add: should_demote_def strcmp_c_pos)
  have neg: "bytes_less (c_str (local_serial c)) (c_str (peer_serial c)) \<Longrightarrow> \<not> should_demote su pu c"
    using assms(3) strcmp_c_neg [of "local_serial c" "peer_serial c"]
    by (simp add: should_demote_def)
  have zero: "c_str (local_serial c) = c_str (peer_serial c) \<Longrightarrow> \<not> should_demote su pu c"
    using assms(3) strcmp_c_zero [of "local_serial c" "peer_serial c"]
    by (simp add: should_demote_def)
  show ?thesis
    using pos neg zero assms(3)
    by (auto simp add: cluster_auto_resolve_split_brain_def Let_def)
qed

text \<open>
  The three cases at the serials of section 8: "SN2000" against "SN1000", the
  reverse, and "SN1000" against itself, each in a state whose flag is set.
\<close>

theorem serial_tie_break_witness:
  "local_role (dual_active_node serial_SN2000 serial_SN1000) = CLUSTER_ROLE_ACTIVE \<and>
   peer_role (dual_active_node serial_SN2000 serial_SN1000) = CLUSTER_ROLE_ACTIVE \<and>
   election_policy (dual_active_node serial_SN2000 serial_SN1000) = ELECTION_PRIORITY_SERIAL \<and>
   bytes_less (c_str (peer_serial (dual_active_node serial_SN2000 serial_SN1000)))
              (c_str (local_serial (dual_active_node serial_SN2000 serial_SN1000))) \<and>
   state_of (cluster_auto_resolve_split_brain 0 0 (dual_active_node serial_SN2000 serial_SN1000)) =
     (dual_active_node serial_SN2000 serial_SN1000)
        \<lparr>local_role := CLUSTER_ROLE_STANDBY, split_brain_detected := False\<rparr> \<and>
   local_role (dual_active_node serial_SN1000 serial_SN2000) = CLUSTER_ROLE_ACTIVE \<and>
   peer_role (dual_active_node serial_SN1000 serial_SN2000) = CLUSTER_ROLE_ACTIVE \<and>
   election_policy (dual_active_node serial_SN1000 serial_SN2000) = ELECTION_PRIORITY_SERIAL \<and>
   bytes_less (c_str (local_serial (dual_active_node serial_SN1000 serial_SN2000)))
              (c_str (peer_serial (dual_active_node serial_SN1000 serial_SN2000))) \<and>
   state_of (cluster_auto_resolve_split_brain 0 0 (dual_active_node serial_SN1000 serial_SN2000)) =
     dual_active_node serial_SN1000 serial_SN2000 \<and>
   local_role (dual_active_node serial_SN1000 serial_SN1000) = CLUSTER_ROLE_ACTIVE \<and>
   peer_role (dual_active_node serial_SN1000 serial_SN1000) = CLUSTER_ROLE_ACTIVE \<and>
   election_policy (dual_active_node serial_SN1000 serial_SN1000) = ELECTION_PRIORITY_SERIAL \<and>
   c_str (local_serial (dual_active_node serial_SN1000 serial_SN1000))
     = c_str (peer_serial (dual_active_node serial_SN1000 serial_SN1000)) \<and>
   state_of (cluster_auto_resolve_split_brain 0 0 (dual_active_node serial_SN1000 serial_SN1000)) =
     dual_active_node serial_SN1000 serial_SN1000"
proof -
  let ?hi = "dual_active_node serial_SN2000 serial_SN1000"
  let ?lo = "dual_active_node serial_SN1000 serial_SN2000"
  let ?eq = "dual_active_node serial_SN1000 serial_SN1000"
  have a1: "local_role ?hi = CLUSTER_ROLE_ACTIVE" by code_simp
  have a2: "peer_role ?hi = CLUSTER_ROLE_ACTIVE" by code_simp
  have a3: "election_policy ?hi = ELECTION_PRIORITY_SERIAL" by code_simp
  have a4: "bytes_less (c_str (peer_serial ?hi)) (c_str (local_serial ?hi))" by code_simp
  have b1: "local_role ?lo = CLUSTER_ROLE_ACTIVE" by code_simp
  have b2: "peer_role ?lo = CLUSTER_ROLE_ACTIVE" by code_simp
  have b3: "election_policy ?lo = ELECTION_PRIORITY_SERIAL" by code_simp
  have b4: "bytes_less (c_str (local_serial ?lo)) (c_str (peer_serial ?lo))" by code_simp
  have c1: "local_role ?eq = CLUSTER_ROLE_ACTIVE" by code_simp
  have c2: "peer_role ?eq = CLUSTER_ROLE_ACTIVE" by code_simp
  have c3: "election_policy ?eq = ELECTION_PRIORITY_SERIAL" by code_simp
  have c4: "c_str (local_serial ?eq) = c_str (peer_serial ?eq)" by code_simp
  from serial_tie_break [OF a1 a2 a3, of 0 0] a4
  have ra: "state_of (cluster_auto_resolve_split_brain 0 0 ?hi) =
              ?hi\<lparr>local_role := CLUSTER_ROLE_STANDBY, split_brain_detected := False\<rparr>"
    by (simp only: state_of_simp)
  from serial_tie_break [OF b1 b2 b3, of 0 0] b4
  have rb: "state_of (cluster_auto_resolve_split_brain 0 0 ?lo) = ?lo"
    by (simp only: state_of_simp)
  from serial_tie_break [OF c1 c2 c3, of 0 0] c4
  have rc: "state_of (cluster_auto_resolve_split_brain 0 0 ?eq) = ?eq"
    by (simp only: state_of_simp)
  from a1 a2 a3 a4 ra b1 b2 b3 b4 rb c1 c2 c3 c4 rc show ?thesis
    by blast
qed

subsection \<open>Failover promotion\<close>

text \<open>
  C3, as amended. From a state with \<open>local_role\<close> Standby and \<open>heartbeat_up\<close>
  true, a tick at which the time since \<open>last_heartbeat_rx\<close> exceeds 3000 ms
  returns 0, leaves \<open>heartbeat_up\<close> false, promotes the node to Active in its
  liveness step and calls each of the two activation functions exactly once.
  The role at the end of the tick is Active unless the split-brain check of the
  same tick runs the resolver (peer role Active, flag clear, auto-recovery
  enabled) and the resolver demotes the node; then it is Standby again.
\<close>

theorem failover_promotion:
  assumes "local_role c = CLUSTER_ROLE_STANDBY" and "heartbeat_up c"
    and "(now - last_heartbeat_rx c) * 1000 > HEARTBEAT_TIMEOUT_MS"
  shows "ret_of (cluster_heartbeat_tick now su pu c) = 0 \<and>
         \<not> heartbeat_up (state_of (cluster_heartbeat_tick now su pu c)) \<and>
         local_role (fst (tick_liveness now c)) = CLUSTER_ROLE_ACTIVE \<and>
         count_list (effects_of (cluster_heartbeat_tick now su pu c)) ActivateVirtualIps = 1 \<and>
         count_list (effects_of (cluster_heartbeat_tick now su pu c)) ActivateMacTables = 1 \<and>
         local_role (state_of (cluster_heartbeat_tick now su pu c)) =
           (if peer_role c = CLUSTER_ROLE_ACTIVE \<and> \<not> split_brain_detected c \<and>
               auto_recovery_enabled c \<and> should_demote su pu c
            then CLUSTER_ROLE_STANDBY else CLUSTER_ROLE_ACTIVE)"
proof -
  have live: "fst (tick_liveness now c) = c\<lparr>heartbeat_up := False, local_role := CLUSTER_ROLE_ACTIVE\<rparr>"
    using assms by (simp add: tick_liveness_state)
  have ret: "ret_of (cluster_heartbeat_tick now su pu c) = 0"
    by (simp add: cluster_heartbeat_tick_def split: prod.splits)
  have sd: "should_demote su pu (c\<lparr>heartbeat_up := False, local_role := CLUSTER_ROLE_ACTIVE\<rparr>)
              = should_demote su pu c"
    by (simp add: should_demote_def)
  have hb: "\<not> heartbeat_up (state_of (cluster_heartbeat_tick now su pu c))"
    unfolding tick_state live tick_split_brain_state by simp
  have role: "local_role (state_of (cluster_heartbeat_tick now su pu c)) =
           (if peer_role c = CLUSTER_ROLE_ACTIVE \<and> \<not> split_brain_detected c \<and>
               auto_recovery_enabled c \<and> should_demote su pu c
            then CLUSTER_ROLE_STANDBY else CLUSTER_ROLE_ACTIVE)"
    unfolding tick_state live tick_split_brain_state sd by simp
  have e1: "snd (tick_liveness now c) =
      [Syslog LOG_WARNING (MsgHeartbeatLost ((now - last_heartbeat_rx c) * 1000)),
       Syslog LOG_WARNING MsgStandbyPromoting, ActivateVirtualIps, ActivateMacTables]"
    using assms by (simp add: tick_liveness_effects)
  have cnt1: "count_list (effects_of (cluster_heartbeat_tick now su pu c)) ActivateVirtualIps = 1"
    unfolding tick_effects e1
    using tick_split_brain_no_activation tick_send_effects
    by (simp add: count_list_0)
  have cnt2: "count_list (effects_of (cluster_heartbeat_tick now su pu c)) ActivateMacTables = 1"
    unfolding tick_effects e1
    using tick_split_brain_no_activation tick_send_effects
    by (simp add: count_list_0)
  from ret hb live role cnt1 cnt2 show ?thesis by simp
qed

text \<open>
  An instance with auto-recovery off, as \<^verbatim>\<open>cluster_state_init\<close> leaves it:
  the node ends the tick Active.
\<close>

theorem failover_promotion_witness:
  "local_role (standby_node False serial_SN2000 serial_SN1000) = CLUSTER_ROLE_STANDBY \<and>
   heartbeat_up (standby_node False serial_SN2000 serial_SN1000) \<and>
   (10 - last_heartbeat_rx (standby_node False serial_SN2000 serial_SN1000)) * 1000
      > HEARTBEAT_TIMEOUT_MS \<and>
   \<not> heartbeat_up (state_of (cluster_heartbeat_tick 10 0 0
                                 (standby_node False serial_SN2000 serial_SN1000))) \<and>
   local_role (state_of (cluster_heartbeat_tick 10 0 0
                           (standby_node False serial_SN2000 serial_SN1000)))
     = CLUSTER_ROLE_ACTIVE \<and>
   count_list (effects_of (cluster_heartbeat_tick 10 0 0
                 (standby_node False serial_SN2000 serial_SN1000))) ActivateVirtualIps = 1"
proof -
  let ?c = "standby_node False serial_SN2000 serial_SN1000"
  have h1: "local_role ?c = CLUSTER_ROLE_STANDBY" by code_simp
  have h2: "heartbeat_up ?c" by code_simp
  have h3: "(10 - last_heartbeat_rx ?c) * 1000 > HEARTBEAT_TIMEOUT_MS" by code_simp
  have h4: "\<not> auto_recovery_enabled ?c" by code_simp
  from failover_promotion [OF h1 h2 h3, of 0 0] h4 h1 h2 h3 show ?thesis
    by simp
qed

text \<open>
  C3 as stated fails when auto-recovery is enabled: a Standby node with serial
  "SN2000", whose peer last reported Active with serial "SN1000", is promoted by
  the liveness step, detects the split-brain in the same tick, loses the
  tie-break and ends the tick in Standby.
\<close>

theorem failover_promotion_counterexample:
  "local_role (standby_node True serial_SN2000 serial_SN1000) = CLUSTER_ROLE_STANDBY \<and>
   heartbeat_up (standby_node True serial_SN2000 serial_SN1000) \<and>
   (10 - last_heartbeat_rx (standby_node True serial_SN2000 serial_SN1000)) * 1000
      > HEARTBEAT_TIMEOUT_MS \<and>
   local_role (state_of (cluster_heartbeat_tick 10 0 0
                           (standby_node True serial_SN2000 serial_SN1000)))
     \<noteq> CLUSTER_ROLE_ACTIVE"
  by code_simp

subsection \<open>Split-brain flag\<close>

text \<open>
  C4. In every state reached from \<^verbatim>\<open>cluster_state_init\<close>, under every
  configuration, by public operations, \<open>split_brain_detected\<close> is true exactly
  when some earlier tick observed both roles Active and neither a self-demotion
  by the resolver nor an operator override has occurred since. Detection is
  edge-triggered: the flag goes from false to true only in a tick that observes
  both roles Active, and a tick that finds the flag set does nothing in its
  split-brain check (no log, no call of the resolver).
\<close>

theorem split_brain_flag_invariant:
  "split_brain_detected (run ops (configured a p (state_of (cluster_state_init cid serial))))
     = pending ops (configured a p (state_of (cluster_state_init cid serial))) False \<and>
   (\<not> split_brain_detected c \<and> split_brain_detected (step x c) \<longrightarrow> observes_dual_active x c) \<and>
   (split_brain_detected c \<longrightarrow>
      tick_split_brain su pu (fst (tick_liveness now c)) = (fst (tick_liveness now c), []))"
proof -
  have "split_brain_detected (configured a p (state_of (cluster_state_init cid serial))) = False"
    by (simp add: configured_def cluster_state_init_def cluster_state_zero_def Let_def)
  then show ?thesis
    using run_flag [of ops "configured a p (state_of (cluster_state_init cid serial))"]
      step_sets_flag [of c x] tick_split_brain_flag_set [of c su pu now]
    by simp
qed

text \<open>
  Instances: the flag after forcing Active, receiving an Active heartbeat and
  ticking; a tick that sets the flag; a tick that finds it set.
\<close>

theorem split_brain_flag_invariant_witness:
  "split_brain_detected
     (run [ForceRole CLUSTER_ROLE_ACTIVE, Receive 0 (hb_from CLUSTER_ROLE_ACTIVE serial_SN1000),
           Tick 1 0 0]
        (configured False ELECTION_PRIORITY_SERIAL (state_of (cluster_state_init 7 serial_SN2000)))) \<and>
   pending [ForceRole CLUSTER_ROLE_ACTIVE, Receive 0 (hb_from CLUSTER_ROLE_ACTIVE serial_SN1000),
            Tick 1 0 0]
        (configured False ELECTION_PRIORITY_SERIAL (state_of (cluster_state_init 7 serial_SN2000)))
        False \<and>
   \<not> split_brain_detected ((dual_active_node serial_SN2000 serial_SN1000)\<lparr>split_brain_detected := False, auto_recovery_enabled := False\<rparr>) \<and>
   split_brain_detected (step (Tick 1 0 0) ((dual_active_node serial_SN2000 serial_SN1000)\<lparr>split_brain_detected := False, auto_recovery_enabled := False\<rparr>)) \<and>
   observes_dual_active (Tick 1 0 0) ((dual_active_node serial_SN2000 serial_SN1000)\<lparr>split_brain_detected := False, auto_recovery_enabled := False\<rparr>) \<and>
   split_brain_detected (dual_active_node serial_SN2000 serial_SN1000) \<and>
   tick_split_brain 0 0 (fst (tick_liveness 1 (dual_active_node serial_SN2000 serial_SN1000)))
     = (fst (tick_liveness 1 (dual_active_node serial_SN2000 serial_SN1000)), [])"
proof -
  let ?ops = "[ForceRole CLUSTER_ROLE_ACTIVE, Receive 0 (hb_from CLUSTER_ROLE_ACTIVE serial_SN1000),
           Tick 1 0 0]"
  let ?base = "configured False ELECTION_PRIORITY_SERIAL (state_of (cluster_state_init 7 serial_SN2000))"
  let ?c = "(dual_active_node serial_SN2000 serial_SN1000)\<lparr>split_brain_detected := False, auto_recovery_enabled := False\<rparr>"
  let ?d = "dual_active_node serial_SN2000 serial_SN1000"
  have f: "split_brain_detected (run ?ops ?base)" by code_simp
  have h1: "\<not> split_brain_detected ?c" by code_simp
  have h2: "split_brain_detected (step (Tick 1 0 0) ?c)" by code_simp
  have h3: "split_brain_detected ?d" by code_simp
  note a = split_brain_flag_invariant [of ?ops False ELECTION_PRIORITY_SERIAL 7 serial_SN2000
              ?c "Tick 1 0 0" 0 0 1]
  note b = split_brain_flag_invariant [of ?ops False ELECTION_PRIORITY_SERIAL 7 serial_SN2000
              ?d "Tick 1 0 0" 0 0 1]
  from a f have p: "pending ?ops ?base False" by blast
  from a h1 h2 have o: "observes_dual_active (Tick 1 0 0) ?c" by blast
  from b h3 have t: "tick_split_brain 0 0 (fst (tick_liveness 1 ?d)) = (fst (tick_liveness 1 ?d), [])"
    by blast
  from f p h1 h2 o h3 t show ?thesis by blast
qed

subsection \<open>Operator override\<close>

text \<open>
  C5. For every prior state, \<^verbatim>\<open>cluster_force_role\<close> with the role Standby calls
  the release path (release the virtual IPs, flush the MAC tables) and with the
  role Active calls the activation path (activate the virtual IPs, activate the
  MAC tables), whatever the prior role and flag; it stores the requested role in
  \<open>local_role\<close>, clears \<open>split_brain_detected\<close>, changes no other field and
  returns 0.
\<close>

theorem force_role_override:
  "cluster_force_role CLUSTER_ROLE_STANDBY c =
     (0, c\<lparr>local_role := CLUSTER_ROLE_STANDBY, split_brain_detected := False\<rparr>,
      [Syslog LOG_WARNING (MsgForcingRole ''STANDBY''), ReleaseVirtualIps, FlushMacTables])
   \<and> cluster_force_role CLUSTER_ROLE_ACTIVE c =
     (0, c\<lparr>local_role := CLUSTER_ROLE_ACTIVE, split_brain_detected := False\<rparr>,
      [Syslog LOG_WARNING (MsgForcingRole ''ACTIVE''), ActivateVirtualIps, ActivateMacTables])"
  by (simp add: cluster_force_role_def)

subsection \<open>Receiver frame condition\<close>

text \<open>
  C6. For every state whose \<open>peer_serial\<close> array is well formed and every
  message, \<^verbatim>\<open>cluster_heartbeat_received\<close> returns 0 and changes exactly four
  fields: \<open>last_heartbeat_rx\<close> becomes the current time, \<open>heartbeat_up\<close> true,
  \<open>peer_role\<close> the sender role, and \<open>peer_serial\<close> the sender serial cut at 31
  bytes. \<open>local_role\<close> and \<open>split_brain_detected\<close> keep their values; when the
  flag is set the call only logs that the heartbeat is back.
  Every state reached from \<^verbatim>\<open>cluster_state_init\<close> has well-formed serial arrays
  (\<open>reachable_serials_ok\<close>).
\<close>

theorem receive_frame:
  assumes "serial_buf_ok (peer_serial c)"
  shows "cluster_heartbeat_received now msg c =
           (0,
            c\<lparr>last_heartbeat_rx := now, heartbeat_up := True, peer_role := sender_role msg,
              peer_serial := strncpy_c (peer_serial c) (sender_serial msg) 31\<rparr>,
            if split_brain_detected c then [Syslog LOG_INFO MsgHeartbeatRestored] else []) \<and>
         c_str (peer_serial (state_of (cluster_heartbeat_received now msg c)))
           = take 31 (c_str (sender_serial msg)) \<and>
         serial_buf_ok (peer_serial (state_of (cluster_heartbeat_received now msg c))) \<and>
         local_role (state_of (cluster_heartbeat_received now msg c)) = local_role c \<and>
         split_brain_detected (state_of (cluster_heartbeat_received now msg c))
           = split_brain_detected c"
proof -
  have eq: "cluster_heartbeat_received now msg c =
           (0,
            c\<lparr>last_heartbeat_rx := now, heartbeat_up := True, peer_role := sender_role msg,
              peer_serial := strncpy_c (peer_serial c) (sender_serial msg) 31\<rparr>,
            if split_brain_detected c then [Syslog LOG_INFO MsgHeartbeatRestored] else [])"
    by (simp add: cluster_heartbeat_received_def Let_def)
  show ?thesis
    unfolding eq
    using c_str_strncpy_c_ok [OF assms, of "sender_serial msg"]
      strncpy_c_ok [OF assms, of "sender_serial msg"]
    by simp
qed

text \<open>
  An instance: a Standby heartbeat received during a split-brain episode.
\<close>

theorem receive_frame_witness:
  "serial_buf_ok (peer_serial (dual_active_node serial_SN2000 serial_SN1000)) \<and>
   c_str (peer_serial (state_of (cluster_heartbeat_received 5
            (hb_from CLUSTER_ROLE_STANDBY serial_SN2000)
            (dual_active_node serial_SN2000 serial_SN1000)))) = serial_SN2000 \<and>
   local_role (state_of (cluster_heartbeat_received 5
            (hb_from CLUSTER_ROLE_STANDBY serial_SN2000)
            (dual_active_node serial_SN2000 serial_SN1000))) = CLUSTER_ROLE_ACTIVE \<and>
   split_brain_detected (state_of (cluster_heartbeat_received 5
            (hb_from CLUSTER_ROLE_STANDBY serial_SN2000)
            (dual_active_node serial_SN2000 serial_SN1000)))"
proof -
  let ?c = "dual_active_node serial_SN2000 serial_SN1000"
  let ?m = "hb_from CLUSTER_ROLE_STANDBY serial_SN2000"
  have h: "serial_buf_ok (peer_serial ?c)" by code_simp
  have f: "split_brain_detected ?c" by code_simp
  have l: "local_role ?c = CLUSTER_ROLE_ACTIVE" by code_simp
  have s: "take 31 (c_str (sender_serial ?m)) = serial_SN2000" by code_simp
  note r = receive_frame [OF h, of 5 ?m]
  from r have "c_str (peer_serial (state_of (cluster_heartbeat_received 5 ?m ?c)))
                 = take 31 (c_str (sender_serial ?m))"
    by blast
  also note s
  finally have a: "c_str (peer_serial (state_of (cluster_heartbeat_received 5 ?m ?c))) = serial_SN2000" .
  from r have "local_role (state_of (cluster_heartbeat_received 5 ?m ?c)) = local_role ?c"
    by blast
  also note l
  finally have b: "local_role (state_of (cluster_heartbeat_received 5 ?m ?c)) = CLUSTER_ROLE_ACTIVE" .
  from r f have d: "split_brain_detected (state_of (cluster_heartbeat_received 5 ?m ?c))"
    by blast
  from h a b d show ?thesis by blast
qed

subsection \<open>Calling the resolver twice\<close>

text \<open>
  C7, as amended. Calling the resolver a second time on the state that the
  first call returned, with the same uptime readings, returns that state
  unchanged, under either policy: there is no further change of role. The second
  call repeats the effects of the first. When the node is not the designated
  loser these are the two logs, the second being "remains Active". When it is
  the loser they are the demotion log and the release path, which is therefore
  invoked once more.
\<close>

theorem auto_resolve_twice:
  "state_of (cluster_auto_resolve_split_brain su pu
              (state_of (cluster_auto_resolve_split_brain su pu c)))
     = state_of (cluster_auto_resolve_split_brain su pu c) \<and>
   effects_of (cluster_auto_resolve_split_brain su pu
              (state_of (cluster_auto_resolve_split_brain su pu c)))
     = effects_of (cluster_auto_resolve_split_brain su pu c) \<and>
   effects_of (cluster_auto_resolve_split_brain su pu c) =
     (if should_demote su pu c
      then [Syslog LOG_INFO (MsgAutoResolving
               (if election_policy c = ELECTION_PRIORITY_SERIAL then ''serial-number'' else ''uptime'')),
            Syslog LOG_WARNING (MsgAutoDemoting (c_str (local_serial c)) (c_str (peer_serial c))),
            ReleaseVirtualIps, FlushMacTables]
      else [Syslog LOG_INFO (MsgAutoResolving
               (if election_policy c = ELECTION_PRIORITY_SERIAL then ''serial-number'' else ''uptime'')),
            Syslog LOG_INFO (MsgRemainsActive (c_str (local_serial c)) (c_str (peer_serial c)))]) \<and>
   state_of (cluster_auto_resolve_split_brain su pu c) =
     (if should_demote su pu c
      then c\<lparr>local_role := CLUSTER_ROLE_STANDBY, split_brain_detected := False\<rparr> else c)"
  by (simp add: cluster_auto_resolve_split_brain_def Let_def should_demote_def)

text \<open>
  C7 as stated fails: with local serial "SN2000" and peer serial "SN1000" the
  second call releases the virtual IPs and flushes the MAC tables again, so the
  release path runs twice over the two calls.
\<close>

theorem auto_resolve_twice_counterexample:
  "ReleaseVirtualIps \<in> set (effects_of (cluster_auto_resolve_split_brain 0 0
      (state_of (cluster_auto_resolve_split_brain 0 0
         (dual_active_node serial_SN2000 serial_SN1000))))) \<and>
   FlushMacTables \<in> set (effects_of (cluster_auto_resolve_split_brain 0 0
      (state_of (cluster_auto_resolve_split_brain 0 0
         (dual_active_node serial_SN2000 serial_SN1000))))) \<and>
   count_list (effects_of (cluster_auto_resolve_split_brain 0 0
                 (dual_active_node serial_SN2000 serial_SN1000)) @
               effects_of (cluster_auto_resolve_split_brain 0 0
                 (state_of (cluster_auto_resolve_split_brain 0 0
                    (dual_active_node serial_SN2000 serial_SN1000))))) ReleaseVirtualIps = 2"
  by code_simp

subsection \<open>Error handling\<close>




subsection \<open>Cluster identity on receive\<close>

text \<open>
  C9. A heartbeat whose \<open>cluster_id\<close> differs from the stored one is processed
  like any other: the call returns 0, sets \<open>heartbeat_up\<close>, stores the current
  time, the sender role and the sender serial, and its whole result equals that
  of the same message carrying the node's own cluster id.
\<close>

theorem receive_ignores_cluster_id:
  "hb_cluster_id msg \<noteq> cluster_id c \<Longrightarrow>
   ret_of (cluster_heartbeat_received now msg c) = 0 \<and>
   heartbeat_up (state_of (cluster_heartbeat_received now msg c)) \<and>
   last_heartbeat_rx (state_of (cluster_heartbeat_received now msg c)) = now \<and>
   peer_role (state_of (cluster_heartbeat_received now msg c)) = sender_role msg \<and>
   peer_serial (state_of (cluster_heartbeat_received now msg c))
     = strncpy_c (peer_serial c) (sender_serial msg) 31 \<and>
   cluster_heartbeat_received now msg c
     = cluster_heartbeat_received now (msg\<lparr>hb_cluster_id := cluster_id c\<rparr>) c"
  by (simp add: cluster_heartbeat_received_def Let_def)

text \<open>
  An instance: a heartbeat of cluster 99 received by a node of cluster 7.
\<close>

theorem receive_ignores_cluster_id_witness:
  "hb_cluster_id ((hb_from CLUSTER_ROLE_ACTIVE serial_SN1000)\<lparr>hb_cluster_id := 99\<rparr>)
     \<noteq> cluster_id (state_of (cluster_state_init 7 serial_SN2000)) \<and>
   heartbeat_up (state_of (cluster_heartbeat_received 5
      ((hb_from CLUSTER_ROLE_ACTIVE serial_SN1000)\<lparr>hb_cluster_id := 99\<rparr>)
      (state_of (cluster_state_init 7 serial_SN2000)))) \<and>
   peer_role (state_of (cluster_heartbeat_received 5
      ((hb_from CLUSTER_ROLE_ACTIVE serial_SN1000)\<lparr>hb_cluster_id := 99\<rparr>)
      (state_of (cluster_state_init 7 serial_SN2000)))) = CLUSTER_ROLE_ACTIVE"
proof -
  let ?m = "(hb_from CLUSTER_ROLE_ACTIVE serial_SN1000)\<lparr>hb_cluster_id := 99\<rparr>"
  let ?c = "state_of (cluster_state_init 7 serial_SN2000)"
  have h: "hb_cluster_id ?m \<noteq> cluster_id ?c" by code_simp
  have m: "sender_role ?m = CLUSTER_ROLE_ACTIVE" by code_simp
  note r = receive_ignores_cluster_id [OF h, of 5]
  from r have u: "heartbeat_up (state_of (cluster_heartbeat_received 5 ?m ?c))"
    by blast
  from r have "peer_role (state_of (cluster_heartbeat_received 5 ?m ?c)) = sender_role ?m"
    by blast
  also note m
  finally have p: "peer_role (state_of (cluster_heartbeat_received 5 ?m ?c)) = CLUSTER_ROLE_ACTIVE" .
  from h u p show ?thesis by blast
qed

subsection \<open>Heartbeat loss is edge-triggered\<close>

text \<open>
  C10, as amended. In a state with \<open>heartbeat_up\<close> false, whatever the time
  since \<open>last_heartbeat_rx\<close>, a tick calls neither activation function, leaves
  \<open>heartbeat_up\<close> false and never promotes: \<open>local_role\<close> keeps its value, except
  that an Active node whose split-brain check runs the resolver in that tick
  (peer role Active, flag clear, auto-recovery enabled) and loses the tie-break
  is demoted to Standby. In particular a Standby node with \<open>heartbeat_up\<close> false
  stays Standby, with no activation, through every sequence of ticks.
\<close>

theorem heartbeat_loss_edge_triggered:
  assumes "\<not> heartbeat_up c"
  shows "ActivateVirtualIps \<notin> set (effects_of (cluster_heartbeat_tick now su pu c)) \<and>
         ActivateMacTables \<notin> set (effects_of (cluster_heartbeat_tick now su pu c)) \<and>
         \<not> heartbeat_up (state_of (cluster_heartbeat_tick now su pu c)) \<and>
         local_role (state_of (cluster_heartbeat_tick now su pu c)) =
           (if local_role c = CLUSTER_ROLE_ACTIVE \<and> peer_role c = CLUSTER_ROLE_ACTIVE \<and>
               \<not> split_brain_detected c \<and> auto_recovery_enabled c \<and> should_demote su pu c
            then CLUSTER_ROLE_STANDBY else local_role c) \<and>
         (local_role c = CLUSTER_ROLE_STANDBY \<and> (\<forall>x\<in>set ops. is_tick x) \<longrightarrow>
            local_role (run ops c) = CLUSTER_ROLE_STANDBY \<and> \<not> heartbeat_up (run ops c) \<and>
            ActivateVirtualIps \<notin> set (trace ops c) \<and> ActivateMacTables \<notin> set (trace ops c))"
proof -
  have live: "fst (tick_liveness now c) = c"
    using assms by (simp add: tick_liveness_state)
  have hb: "\<not> heartbeat_up (state_of (cluster_heartbeat_tick now su pu c))"
    unfolding tick_state live tick_split_brain_state using assms by simp
  have role: "local_role (state_of (cluster_heartbeat_tick now su pu c)) =
           (if local_role c = CLUSTER_ROLE_ACTIVE \<and> peer_role c = CLUSTER_ROLE_ACTIVE \<and>
               \<not> split_brain_detected c \<and> auto_recovery_enabled c \<and> should_demote su pu c
            then CLUSTER_ROLE_STANDBY else local_role c)"
    unfolding tick_state live tick_split_brain_state by simp
  from tick_down_no_activation [OF assms, of now su pu] hb role
    ticks_keep_standby_down [OF assms, of ops]
  show ?thesis by blast
qed

text \<open>
  An instance: a node forced to Standby after initialisation, ticked at 100 s and
  200 s without any heartbeat.
\<close>

theorem heartbeat_loss_edge_triggered_witness:
  "\<not> heartbeat_up (node_after False serial_SN2000 [ForceRole CLUSTER_ROLE_STANDBY]) \<and>
   local_role (node_after False serial_SN2000 [ForceRole CLUSTER_ROLE_STANDBY])
     = CLUSTER_ROLE_STANDBY \<and>
   is_tick (Tick 100 0 0) \<and> is_tick (Tick 200 0 0) \<and>
   ActivateVirtualIps \<notin> set (effects_of (cluster_heartbeat_tick 100 0 0
        (node_after False serial_SN2000 [ForceRole CLUSTER_ROLE_STANDBY]))) \<and>
   local_role (run [Tick 100 0 0, Tick 200 0 0]
        (node_after False serial_SN2000 [ForceRole CLUSTER_ROLE_STANDBY])) = CLUSTER_ROLE_STANDBY \<and>
   ActivateVirtualIps \<notin> set (trace [Tick 100 0 0, Tick 200 0 0]
        (node_after False serial_SN2000 [ForceRole CLUSTER_ROLE_STANDBY]))"
proof -
  let ?c = "node_after False serial_SN2000 [ForceRole CLUSTER_ROLE_STANDBY]"
  let ?ops = "[Tick 100 0 0, Tick 200 0 0]"
  have h: "\<not> heartbeat_up ?c" by code_simp
  have l: "local_role ?c = CLUSTER_ROLE_STANDBY" by code_simp
  have t: "\<forall>x\<in>set ?ops. is_tick x" by simp
  have i: "is_tick (Tick 100 0 0)" "is_tick (Tick 200 0 0)" by simp_all
  note r = heartbeat_loss_edge_triggered [OF h, of 100 0 0 ?ops]
  from r h l t i show ?thesis by blast
qed

text \<open>
  C10 as stated fails when auto-recovery is enabled: an Active node with serial
  "SN2000" whose heartbeat is already down, whose peer last reported Active with
  serial "SN1000" and whose flag an operator override has cleared, is demoted to
  Standby by the next tick.
\<close>

theorem heartbeat_loss_edge_triggered_counterexample:
  "\<not> heartbeat_up (node_after True serial_SN2000
        [Receive 0 (hb_from CLUSTER_ROLE_ACTIVE serial_SN1000), Tick 10 0 0,
         ForceRole CLUSTER_ROLE_ACTIVE]) \<and>
   local_role (state_of (cluster_heartbeat_tick 11 0 0 (node_after True serial_SN2000
        [Receive 0 (hb_from CLUSTER_ROLE_ACTIVE serial_SN1000), Tick 10 0 0,
         ForceRole CLUSTER_ROLE_ACTIVE])))
     \<noteq> local_role (node_after True serial_SN2000
        [Receive 0 (hb_from CLUSTER_ROLE_ACTIVE serial_SN1000), Tick 10 0 0,
         ForceRole CLUSTER_ROLE_ACTIVE])"
  by code_simp

end
